theory Spec2Isabelle
  imports Complex_Main
begin

section \<open>RodSimulator3000: a heated rod, its heat source and the scheduler\<close>

text \<open>
  The program is one Python module, \<^verbatim>\<open>rod-simulator.py\<close>, with four classes:
  \<^verbatim>\<open>Material\<close>, \<^verbatim>\<open>Rod\<close>, \<^verbatim>\<open>HeatSource\<close> and \<^verbatim>\<open>Simulation\<close>.

  Numbers. Every quantity of the program (joules, kelvin, metres, seconds) is a Python
  number; the embedding takes them as \<^typ>\<open>real\<close>, so \<^verbatim>\<open>+\<close>, \<^verbatim>\<open>-\<close>, \<^verbatim>\<open>*\<close> and
  \<^verbatim>\<open>**\<close> are the exact operations and the rounding of IEEE doubles is not part of
  the model. Division is the one arithmetic operation of the module that can raise: Python's
  \<^verbatim>\<open>/\<close> raises \<^verbatim>\<open>ZeroDivisionError\<close> on a zero divisor (for floats as for ints),
  whereas \<^term>\<open>x / (0::real)\<close> is \<^term>\<open>0::real\<close> in HOL, so division is modelled by
  \<open>py_div\<close> below.

  Exceptions. A method that can raise returns a value of \<open>py_error + 'a\<close>; a method that
  mutates and can raise returns the exception (if any) together with the state it leaves
  behind, because the assignments made before a \<^verbatim>\<open>raise\<close> stay in place.
\<close>

subsection \<open>Exceptions and division\<close>

datatype py_error =
    ZeroDivisionError
  | AttributeError string   \<comment> \<open>the name of the attribute that was not found\<close>

definition py_div :: "real \<Rightarrow> real \<Rightarrow> py_error + real" where
  "py_div a b = (if b = 0 then Inl ZeroDivisionError else Inr (a / b))"

subsection \<open>Material\<close>

text \<open>
  \<^verbatim>\<open>Material.__init__\<close> stores its three arguments; no method of the module assigns to a
  material afterwards, so the reference a rod holds to its material is modelled by the value.
\<close>

record Material =
  density :: real
  specificHeat :: real
  expansionCoefficient :: real

definition Material_init :: "real \<Rightarrow> real \<Rightarrow> real \<Rightarrow> Material" where
  "Material_init d sh ec = \<lparr>density = d, specificHeat = sh, expansionCoefficient = ec\<rparr>"

definition molarToMassHeatCapacity :: "real \<Rightarrow> real \<Rightarrow> py_error + real" where
  "molarToMassHeatCapacity molarCapacity molarMass = py_div molarCapacity molarMass"

subsection \<open>Rod\<close>

record Rod =
  STPLength :: real
  STPDiameter :: real
  mass :: real
  material :: Material
  heat :: real
  lastPrint :: real
  printed :: bool

definition setTemperature :: "Rod \<Rightarrow> real \<Rightarrow> Rod" where
  "setTemperature self kelvin =
     self\<lparr>heat := specificHeat (material self) * kelvin * mass self\<rparr>"

text \<open>
  \<^verbatim>\<open>self.heat / self.material.specificHeat / self.mass\<close> associates to the left: the first
  division raises when the specific heat is zero, the second when the mass is.
\<close>

definition temperature :: "Rod \<Rightarrow> py_error + real" where
  "temperature self =
     (case py_div (heat self) (specificHeat (material self)) of
        Inl e \<Rightarrow> Inl e
      | Inr q \<Rightarrow> py_div q (mass self))"

definition modifyHeat :: "Rod \<Rightarrow> real \<Rightarrow> Rod" where
  "modifyHeat self heatDelta = self\<lparr>heat := heat self + heatDelta\<rparr>"

definition expansionTemperature :: "Rod \<Rightarrow> py_error + real" where
  "expansionTemperature self =
     (case temperature self of
        Inl e \<Rightarrow> Inl e
      | Inr t \<Rightarrow> Inr (t - 273 - 20))"

definition volumeExpansion :: "Rod \<Rightarrow> py_error + real" where
  "volumeExpansion self =
     (case expansionTemperature self of
        Inl e \<Rightarrow> Inl e
      | Inr et \<Rightarrow> Inr (1 + expansionCoefficient (material self) * 3 * et))"

definition linearExpansion :: "Rod \<Rightarrow> py_error + real" where
  "linearExpansion self =
     (case volumeExpansion self of
        Inl e \<Rightarrow> Inl e
      | Inr ve \<Rightarrow>
          (case expansionTemperature self of
             Inl e \<Rightarrow> Inl e
           | Inr et \<Rightarrow> Inr (1 + ve * et)))"

definition length_Rod :: "Rod \<Rightarrow> py_error + real" where
  "length_Rod self =
     (case volumeExpansion self of
        Inl e \<Rightarrow> Inl e
      | Inr ve \<Rightarrow> Inr (STPLength self * ve))"

definition diameter :: "Rod \<Rightarrow> py_error + real" where
  "diameter self =
     (case volumeExpansion self of
        Inl e \<Rightarrow> Inl e
      | Inr ve \<Rightarrow> Inr (STPDiameter self * ve))"



text \<open>
  \<^verbatim>\<open>Rod.__init__(material, length, diameter)\<close>. The argument \<open>now\<close> is the value that
  \<^verbatim>\<open>time.time()\<close> returns on line 65. The constructor assigns the fields in the order of
  the source, calls \<^verbatim>\<open>setTemperature(273 + 20)\<close> and only then creates \<^verbatim>\<open>printed\<close>.
\<close>

definition Rod_init :: "Material \<Rightarrow> real \<Rightarrow> real \<Rightarrow> real \<Rightarrow> Rod" where
  "Rod_init material' length' diameter' now =
     (setTemperature
        \<lparr>STPLength = length',
         STPDiameter = diameter',
         mass = length' * diameter' * density material',
         material = material',
         heat = 0,
         lastPrint = now,
         printed = False\<rparr>
        (273 + 20))
     \<lparr>printed := False\<rparr>"

subsection \<open>Console output\<close>

text \<open>
  \<^verbatim>\<open>print\<close> appends a line to the console. The header and the rule under it are strings;
  a row of measurements is kept as its five numbers (the \<^verbatim>\<open>:16f\<close> and \<^verbatim>\<open>:20f\<close>
  formatting of a float is not modelled).
\<close>

datatype line =
    Text string
  | Row real real real real real
      \<comment> \<open>heat, length expansion, diameter expansion, temperature - 273.0, elapsed\<close>

text \<open>\<^verbatim>\<open>"{:Ns}".format(s)\<close>: the string, padded with spaces on the right to width \<open>N\<close>.\<close>

definition format_s :: "nat \<Rightarrow> string \<Rightarrow> string" where
  "format_s width s = s @ replicate (width - length s) CHR '' ''"

definition header :: string where
  "header =
     ''| '' @ format_s 16 ''Heat'' @ '' | '' @ format_s 20 ''Length expansion'' @ '' | ''
     @ format_s 20 ''Diameter expansion'' @ '' | '' @ format_s 20 ''Temperature'' @ '' | ''
     @ format_s 20 ''Time elapsed'' @ '' |''"

subsection \<open>Rod.tick\<close>

text \<open>
  \<^verbatim>\<open>Rod.tick(delta)\<close>. The argument \<open>now\<close> is the value \<^verbatim>\<open>time.time()\<close> returns on
  line 101. The result is the exception raised (if any), the rod as the call leaves it and
  the lines printed. \<^verbatim>\<open>self.length()\<close> and \<^verbatim>\<open>self.diameter()\<close> are evaluated before
  anything is printed or assigned; \<^verbatim>\<open>self.temperature()\<close> inside the row is evaluated
  after the header has been printed and \<^verbatim>\<open>printed\<close> set.
\<close>

definition Rod_tick :: "Rod \<Rightarrow> real \<Rightarrow> real \<Rightarrow> py_error option \<times> Rod \<times> line list" where
  "Rod_tick self delta now =
     (let elapsed = now - lastPrint self in
      case length_Rod self of
        Inl e \<Rightarrow> (Some e, self, [])
      | Inr len \<Rightarrow>
      (case diameter self of
        Inl e \<Rightarrow> (Some e, self, [])
      | Inr dia \<Rightarrow>
      (let lengthExpansion = len - STPLength self;
           diameterExpansion = dia - STPDiameter self;
           (self1, out1) =
             (if \<not> printed self
              then (self\<lparr>printed := True\<rparr>,
                    [Text header, Text (replicate (length header) CHR ''-'')])
              else (self, []))
       in if elapsed \<ge> 1
          then (case temperature self1 of
                  Inl e \<Rightarrow> (Some e, self1, out1)
                | Inr t \<Rightarrow>
                    (None,
                     self1\<lparr>lastPrint := lastPrint self1 + 1\<rparr>,
                     out1 @ [Row (heat self1) lengthExpansion diameterExpansion
                               (t - 273) elapsed]))
          else (None, self1, out1))))"

subsection \<open>HeatSource\<close>

text \<open>
  \<^verbatim>\<open>HeatSource.__init__\<close> creates \<^verbatim>\<open>power\<close> and \<^verbatim>\<open>on\<close> but not \<^verbatim>\<open>target\<close>: the
  attribute exists only once \<^verbatim>\<open>setTarget\<close> has been called. So the attribute has three
  states: absent, holding \<^verbatim>\<open>None\<close>, or holding a reference to an object.
\<close>

type_synonym ref = nat

datatype attr = Absent | PyNone | Ref ref

record HeatSource =
  power_hs :: real     \<comment> \<open>the attribute \<^verbatim>\<open>power\<close>\<close>
  on_hs :: bool        \<comment> \<open>the attribute \<^verbatim>\<open>on\<close>\<close>
  target :: attr

definition HeatSource_init :: "real \<Rightarrow> HeatSource" where
  "HeatSource_init power' = \<lparr>power_hs = power', on_hs = False, target = Absent\<rparr>"

text \<open>\<^verbatim>\<open>setTarget(obj)\<close>: \<open>obj\<close> is \<^verbatim>\<open>None\<close> or a reference, never \<open>Absent\<close>.\<close>

definition setTarget :: "HeatSource \<Rightarrow> ref option \<Rightarrow> HeatSource" where
  "setTarget self obj = self\<lparr>target := (case obj of None \<Rightarrow> PyNone | Some a \<Rightarrow> Ref a)\<rparr>"

definition setPower :: "HeatSource \<Rightarrow> real \<Rightarrow> HeatSource" where
  "setPower self power' = self\<lparr>power_hs := power'\<rparr>"

definition turnOn :: "HeatSource \<Rightarrow> HeatSource" where
  "turnOn self = self\<lparr>on_hs := True\<rparr>"

definition turnOff :: "HeatSource \<Rightarrow> HeatSource" where
  "turnOff self = self\<lparr>on_hs := False\<rparr>"

subsection \<open>Objects, the heap and the world\<close>

text \<open>
  A heat source and the simulation refer to the same rod object, so objects live in a
  heap, addressed by references. The world also holds the console, the clock and a journal.
  The clock is the sequence of values that successive calls of \<^verbatim>\<open>time.time()\<close> return.
  The journal is not program state: it records, for the proofs, when \<^verbatim>\<open>Simulation.tick\<close>
  enters and leaves a call \<^verbatim>\<open>obj.tick(delta)\<close>.
\<close>

datatype obj = RodObj Rod | HeatSourceObj HeatSource

datatype event =
    TickCalled ref real   \<comment> \<open>\<^verbatim>\<open>obj.tick(delta)\<close> is entered\<close>
  | TickReturned ref      \<comment> \<open>the call has returned normally\<close>

record world =
  heap :: "ref \<Rightarrow> obj"
  stdout :: "line list"
  clock :: "nat \<Rightarrow> real"
  reads :: nat
  journal :: "event list"


text \<open>
  \<^verbatim>\<open>HeatSource.tick(delta)\<close>. Line 51 reads \<^verbatim>\<open>self.target\<close>, which raises
  \<^verbatim>\<open>AttributeError\<close> when the attribute is absent. The body of the \<^verbatim>\<open>if\<close> is
  \<^verbatim>\<open>pass\<close>, so both branches continue with line 53, which looks \<^verbatim>\<open>modifyHeat\<close> up on
  the target: \<^verbatim>\<open>None\<close> and a \<^verbatim>\<open>HeatSource\<close> have no such attribute.
\<close>

definition HeatSource_tick :: "HeatSource \<Rightarrow> real \<Rightarrow> world \<Rightarrow> py_error option \<times> world" where
  "HeatSource_tick self delta w =
     (case target self of
        Absent \<Rightarrow> (Some (AttributeError ''target''), w)
      | tgt \<Rightarrow>
          (let line53 =
                 (case tgt of
                    Ref a \<Rightarrow>
                      (case heap w a of
                         RodObj r \<Rightarrow>
                           (None,
                            w\<lparr>heap :=
                                (heap w)(a := RodObj (modifyHeat r (delta * power_hs self)))\<rparr>)
                       | HeatSourceObj h \<Rightarrow> (Some (AttributeError ''modifyHeat''), w))
                  | _ \<Rightarrow> (Some (AttributeError ''modifyHeat''), w))
           in if tgt = PyNone \<or> \<not> on_hs self
              then line53    \<comment> \<open>\<^verbatim>\<open>pass\<close>, then line 53\<close>
              else line53))"


subsection \<open>Simulation\<close>







subsection \<open>Sequences of calls\<close>

text \<open>
  What a caller can do to an object between its construction and a later moment is a list
  of method calls. For a heat source whose \<^verbatim>\<open>setTarget\<close> is never called these are
  \<^verbatim>\<open>setPower\<close>, \<^verbatim>\<open>turnOn\<close> and \<^verbatim>\<open>turnOff\<close>.
\<close>

datatype HeatSource_call = SetPower real | TurnOn | TurnOff

fun HeatSource_do :: "HeatSource \<Rightarrow> HeatSource_call \<Rightarrow> HeatSource" where
  "HeatSource_do self (SetPower p) = setPower self p"
| "HeatSource_do self TurnOn = turnOn self"
| "HeatSource_do self TurnOff = turnOff self"

text \<open>
  For a rod the calls that assign to it are \<^verbatim>\<open>modifyHeat\<close>, \<^verbatim>\<open>setTemperature\<close> and
  \<^verbatim>\<open>tick\<close> (with the clock value it reads); the other methods only compute. After a
  \<^verbatim>\<open>tick\<close> that raised, the rod is as the call left it.
\<close>

datatype Rod_call = ModifyHeat real | SetTemperature real | Tick real real

fun Rod_do :: "Rod \<Rightarrow> Rod_call \<Rightarrow> Rod" where
  "Rod_do self (ModifyHeat heatDelta) = modifyHeat self heatDelta"
| "Rod_do self (SetTemperature kelvin) = setTemperature self kelvin"
| "Rod_do self (Tick delta now) = fst (snd (Rod_tick self delta now))"

subsection \<open>The module's own wiring\<close>

text \<open>
  Lines 136 to 144 build one material, one rod and one heat source, point the heat source
  at the rod and register first the heat source, then the rod. \<^verbatim>\<open>turnOn\<close> is not called.
  Here the heat source is the object at reference 0 and the rod the object at reference 1;
  no other reference is used. \<open>clk\<close> is the clock; the rod's constructor takes its first
  value. \<open>out\<close> is what the console holds when the wiring is done.
\<close>

definition main_h :: real where
  "main_h = 25.1 / 0.055845"

definition main_iron :: Material where
  "main_iron = Material_init 7.874 main_h (11.8 / 10 ^ 6)"

definition main_rod :: "(nat \<Rightarrow> real) \<Rightarrow> Rod" where
  "main_rod clk = Rod_init main_iron 1 0.05 (clk 0)"

definition main_heater :: HeatSource where
  "main_heater = setTarget (HeatSource_init 100) (Some 1)"


definition main_world :: "line list \<Rightarrow> (nat \<Rightarrow> real) \<Rightarrow> world" where
  "main_world out clk =
     \<lparr>heap = (\<lambda>a. if a = 0 then HeatSourceObj main_heater else RodObj (main_rod clk)),
      stdout = out,
      clock = clk,
      reads = 1,
      journal = []\<rparr>"

text \<open>
  The same wiring without line 142: the heat source is registered, but \<^verbatim>\<open>setTarget\<close>
  was never called on it.
\<close>

definition unwired_world :: "line list \<Rightarrow> (nat \<Rightarrow> real) \<Rightarrow> world" where
  "unwired_world out clk =
     \<lparr>heap = (\<lambda>a. if a = 0 then HeatSourceObj (HeatSource_init 100)
                   else RodObj (main_rod clk)),
      stdout = out,
      clock = clk,
      reads = 1,
      journal = []\<rparr>"

section \<open>Properties\<close>

subsection \<open>Helper facts about the derived quantities\<close>

lemma main_h_returned: "molarToMassHeatCapacity 25.1 0.055845 = Inr main_h"
  by (simp add: molarToMassHeatCapacity_def py_div_def main_h_def)







subsection \<open>The rod: volume and expansion\<close>




lemma main_rod_volumeExpansion: "volumeExpansion (main_rod clk) = Inr 1"
  by (simp add: main_rod_def main_iron_def main_h_def Material_init_def Rod_init_def
      setTemperature_def volumeExpansion_def expansionTemperature_def temperature_def py_div_def)


subsection \<open>The rod: what its methods leave alone\<close>

lemma Rod_tick_frame:
  "heat (fst (snd (Rod_tick r delta now))) = heat r
   \<and> STPLength (fst (snd (Rod_tick r delta now))) = STPLength r
   \<and> STPDiameter (fst (snd (Rod_tick r delta now))) = STPDiameter r
   \<and> mass (fst (snd (Rod_tick r delta now))) = mass r
   \<and> material (fst (snd (Rod_tick r delta now))) = material r"
  by (simp add: Rod_tick_def Let_def split: sum.splits prod.splits)

text \<open>
  C7. \<open>Rod.tick(delta)\<close> leaves the physical state as it was: \<open>heat\<close>, \<open>STPLength\<close>,
  \<open>STPDiameter\<close>, \<open>mass\<close> and \<open>material\<close> have the same values after the call (whether
  it returns or raises) as before, for every rod, every \<open>delta\<close> and every clock value.
\<close>

theorem Rod_tick_physical_state_unchanged:
  "heat (fst (snd (Rod_tick r delta now))) = heat r
   \<and> STPLength (fst (snd (Rod_tick r delta now))) = STPLength r
   \<and> STPDiameter (fst (snd (Rod_tick r delta now))) = STPDiameter r
   \<and> mass (fst (snd (Rod_tick r delta now))) = mass r
   \<and> material (fst (snd (Rod_tick r delta now))) = material r"
  by (rule Rod_tick_frame)

theorem Rod_tick_physical_state_unchanged_witness:
  "heat (fst (snd (Rod_tick (main_rod (\<lambda>n. 0)) 1 2))) = heat (main_rod (\<lambda>n. 0))
   \<and> STPLength (fst (snd (Rod_tick (main_rod (\<lambda>n. 0)) 1 2))) = 1
   \<and> STPDiameter (fst (snd (Rod_tick (main_rod (\<lambda>n. 0)) 1 2))) = 0.05
   \<and> mass (fst (snd (Rod_tick (main_rod (\<lambda>n. 0)) 1 2))) = 1 * 0.05 * 7.874
   \<and> material (fst (snd (Rod_tick (main_rod (\<lambda>n. 0)) 1 2))) = main_iron
   \<and> printed (fst (snd (Rod_tick (main_rod (\<lambda>n. 0)) 1 2)))
   \<and> lastPrint (fst (snd (Rod_tick (main_rod (\<lambda>n. 0)) 1 2))) = 1"
proof -
  have le: "length_Rod (main_rod (\<lambda>n. 0)) = Inr 1"
    by (simp add: length_Rod_def main_rod_volumeExpansion)
      (simp add: main_rod_def Rod_init_def setTemperature_def)
  have di: "diameter (main_rod (\<lambda>n. 0)) = Inr 0.05"
    by (simp add: diameter_def main_rod_volumeExpansion)
      (simp add: main_rod_def Rod_init_def setTemperature_def)
  have te: "temperature ((main_rod (\<lambda>n. 0))\<lparr>printed := True\<rparr>) = Inr 293"
    by (simp add: main_rod_def main_iron_def main_h_def Material_init_def Rod_init_def
        setTemperature_def temperature_def py_div_def)
  have pl: "\<not> printed (main_rod (\<lambda>n. 0))" "lastPrint (main_rod (\<lambda>n. 0)) = 0"
    by (simp_all add: main_rod_def Rod_init_def setTemperature_def)
  have "printed (fst (snd (Rod_tick (main_rod (\<lambda>n. 0)) 1 2)))
        \<and> lastPrint (fst (snd (Rod_tick (main_rod (\<lambda>n. 0)) 1 2))) = 1"
    by (simp add: Rod_tick_def Let_def le di te pl)
  moreover have "STPLength (main_rod (\<lambda>n. 0)) = 1" "STPDiameter (main_rod (\<lambda>n. 0)) = 0.05"
    "mass (main_rod (\<lambda>n. 0)) = 1 * 0.05 * 7.874" "material (main_rod (\<lambda>n. 0)) = main_iron"
    by (simp_all add: main_rod_def Rod_init_def setTemperature_def main_iron_def
        Material_init_def)
  ultimately show ?thesis
    using Rod_tick_physical_state_unchanged [of "main_rod (\<lambda>n. 0)" 1 2] by simp
qed

lemma Rod_do_frame:
  "STPLength (Rod_do r c) = STPLength r \<and> STPDiameter (Rod_do r c) = STPDiameter r
   \<and> mass (Rod_do r c) = mass r \<and> material (Rod_do r c) = material r"
  by (cases c) (simp_all add: modifyHeat_def setTemperature_def Rod_tick_frame)

lemma Rod_foldl_frame:
  "STPLength (foldl Rod_do r cs) = STPLength r \<and> STPDiameter (foldl Rod_do r cs) = STPDiameter r
   \<and> mass (foldl Rod_do r cs) = mass r \<and> material (foldl Rod_do r cs) = material r"
  by (induction cs arbitrary: r) (simp_all add: Rod_do_frame)

text \<open>
  C9. After construction from material \<open>m\<close>, length \<open>L\<close> and diameter \<open>D\<close>, and after any
  sequence of \<open>modifyHeat\<close>, \<open>setTemperature\<close> and \<open>tick\<close> calls, the fields \<open>STPLength\<close>,
  \<open>STPDiameter\<close>, \<open>mass\<close> and \<open>material\<close> hold their construction values, and the mass is
  \<open>L * D * density m\<close>.
\<close>

theorem Rod_construction_fields_invariant:
  "STPLength (foldl Rod_do (Rod_init m L D now) cs) = L
   \<and> STPDiameter (foldl Rod_do (Rod_init m L D now) cs) = D
   \<and> mass (foldl Rod_do (Rod_init m L D now) cs) = L * D * density m
   \<and> material (foldl Rod_do (Rod_init m L D now) cs) = m"
  by (simp add: Rod_foldl_frame Rod_init_def setTemperature_def)

theorem Rod_construction_fields_invariant_witness:
  "STPLength (foldl Rod_do (Rod_init main_iron 1 0.05 0)
                [ModifyHeat 100, Tick 1 2, SetTemperature 300, ModifyHeat (- 5)]) = 1
   \<and> STPDiameter (foldl Rod_do (Rod_init main_iron 1 0.05 0)
                [ModifyHeat 100, Tick 1 2, SetTemperature 300, ModifyHeat (- 5)]) = 0.05
   \<and> mass (foldl Rod_do (Rod_init main_iron 1 0.05 0)
                [ModifyHeat 100, Tick 1 2, SetTemperature 300, ModifyHeat (- 5)]) = 0.3937
   \<and> material (foldl Rod_do (Rod_init main_iron 1 0.05 0)
                [ModifyHeat 100, Tick 1 2, SetTemperature 300, ModifyHeat (- 5)]) = main_iron"
  using Rod_construction_fields_invariant
    [of main_iron 1 "0.05" 0 "[ModifyHeat 100, Tick 1 2, SetTemperature 300, ModifyHeat (- 5)]"]
  by (simp add: main_iron_def Material_init_def)

subsection \<open>The heat source\<close>

text \<open>
  Whatever the \<open>on\<close> flag says, a heat source whose target is a rod adds \<open>delta * power\<close>
  to that rod's heat: the guard of line 51 has no effect on line 53.
\<close>

lemma HeatSource_tick_Rod_target:
  assumes "target hs = Ref a" and "heap w a = RodObj r"
  shows "HeatSource_tick hs delta w
         = (None, w\<lparr>heap := (heap w)(a := RodObj (r\<lparr>heat := heat r + delta * power_hs hs\<rparr>))\<rparr>)"
  using assms by (simp add: HeatSource_tick_def modifyHeat_def Let_def)

text \<open>
  C1 (the code does otherwise). The claim: a heat source that is off, or has no target, does
  nothing on \<open>tick\<close>. The code, at the module's own wiring (power 100, target set to the rod,
  \<open>turnOn\<close> never called) and \<open>delta = 1\<close>: the call returns without error and the rod's
  heat has grown by 100 joules.
\<close>

theorem HeatSource_tick_off_still_heats:
  "on_hs main_heater = False
   \<and> target main_heater = Ref 1
   \<and> heap (main_world [] (\<lambda>n. 0)) 1 = RodObj (main_rod (\<lambda>n. 0))
   \<and> fst (HeatSource_tick main_heater 1 (main_world [] (\<lambda>n. 0))) = None
   \<and> heap (snd (HeatSource_tick main_heater 1 (main_world [] (\<lambda>n. 0)))) 1
       = RodObj ((main_rod (\<lambda>n. 0))\<lparr>heat := heat (main_rod (\<lambda>n. 0)) + 100\<rparr>)
   \<and> heat (main_rod (\<lambda>n. 0)) + 100 \<noteq> heat (main_rod (\<lambda>n. 0))"
proof -
  have t: "target main_heater = Ref 1" and o: "on_hs main_heater = False"
    and p: "power_hs main_heater = 100"
    by (simp_all add: main_heater_def setTarget_def HeatSource_init_def)
  have h: "heap (main_world [] (\<lambda>n. 0)) 1 = RodObj (main_rod (\<lambda>n. 0))"
    by (simp add: main_world_def)
  from HeatSource_tick_Rod_target [OF t h, of 1] t o p h show ?thesis
    by simp
qed



lemma target_HeatSource_do: "target (HeatSource_do hs c) = target hs"
  by (cases c) (simp_all add: setPower_def turnOn_def turnOff_def)

lemma target_foldl_HeatSource_do: "target (foldl HeatSource_do hs cs) = target hs"
  by (induction cs arbitrary: hs) (simp_all add: target_HeatSource_do)

text \<open>
  C10. On a heat source constructed with any power, on which \<open>setTarget\<close> has never been
  called (whatever \<open>setPower\<close>, \<open>turnOn\<close> and \<open>turnOff\<close> calls were made, so with the \<open>on\<close>
  flag either way), \<open>tick(delta)\<close> raises \<open>AttributeError\<close> for the attribute \<open>target\<close>
  and changes nothing.
\<close>

theorem HeatSource_tick_without_target_raises:
  "HeatSource_tick (foldl HeatSource_do (HeatSource_init p) cs) delta w
   = (Some (AttributeError ''target''), w)"
proof -
  have "target (foldl HeatSource_do (HeatSource_init p) cs) = Absent"
    by (simp add: target_foldl_HeatSource_do HeatSource_init_def)
  then show ?thesis
    by (simp add: HeatSource_tick_def)
qed

theorem HeatSource_tick_without_target_raises_witness:
  "on_hs (foldl HeatSource_do (HeatSource_init 100) [TurnOn])
   \<and> HeatSource_tick (foldl HeatSource_do (HeatSource_init 100) [TurnOn]) 1
       (unwired_world [] (\<lambda>n. 0))
     = (Some (AttributeError ''target''), unwired_world [] (\<lambda>n. 0))
   \<and> on_hs (foldl HeatSource_do (HeatSource_init 100) []) = False
   \<and> HeatSource_tick (foldl HeatSource_do (HeatSource_init 100) []) 1
       (unwired_world [] (\<lambda>n. 0))
     = (Some (AttributeError ''target''), unwired_world [] (\<lambda>n. 0))"
  using HeatSource_tick_without_target_raises [of 100 "[TurnOn]" 1 "unwired_world [] (\<lambda>n. 0)"]
    HeatSource_tick_without_target_raises [of 100 "[]" 1 "unwired_world [] (\<lambda>n. 0)"]
  by (simp add: turnOn_def HeatSource_init_def)

subsection \<open>The simulation\<close>









end
